theory Spec2Isabelle
  imports Main "HOL-Library.Word"
begin

section \<open>Data model\<close>

text \<open>
  The persisted document of the adapter, \<^verbatim>\<open>type CasbinRule struct\<close>: eight string
  fields. Go strings are byte sequences, and so is \<^typ>\<open>string\<close>.
\<close>

record CasbinRule =
  ID :: string
  PType :: string
  V0 :: string
  V1 :: string
  V2 :: string
  V3 :: string
  V4 :: string
  V5 :: string

text \<open>
  The part of casbin's in-memory model this adapter touches: \<^verbatim>\<open>model.Model\<close> is
  \<^verbatim>\<open>map[string]AssertionMap\<close>, \<^verbatim>\<open>AssertionMap\<close> is \<^verbatim>\<open>map[string]*Assertion\<close>, and the
  adapter reads and writes the field \<^verbatim>\<open>Policy [][]string\<close> of an assertion. Indexing a
  Go map at a missing key gives the zero value: a nil map for the outer map, a nil
  pointer for the inner one. Both are \<open>None\<close> here.
\<close>

record Assertion =
  Policy :: "string list list"

type_synonym AssertionMap = "string \<rightharpoonup> Assertion"

type_synonym Model = "string \<rightharpoonup> AssertionMap"

text \<open>The run-time panics the modelled code can raise.\<close>

datatype panic =
  SliceBoundsOutOfRange
  | NilPointerDereference
  | IndexOutOfRange
  | InterfaceConversion

section \<open>Record codec\<close>

subsection \<open>Decoding: \<^verbatim>\<open>loadPolicyLine\<close>\<close>

text \<open>
  The chain of \<^verbatim>\<open>if line.Vk != "" { tokens = append(tokens, line.Vk) } else { goto LineEnd }\<close>
  of \<^verbatim>\<open>loadPolicyLine\<close>: the value of \<^verbatim>\<open>tokens\<close> when control reaches \<^verbatim>\<open>LineEnd\<close>.
\<close>

definition line_tokens :: "CasbinRule \<Rightarrow> string list" where
  "line_tokens line =
     (let tokens = [] in
      if V0 line \<noteq> [] then
        (let tokens = tokens @ [V0 line] in
         if V1 line \<noteq> [] then
           (let tokens = tokens @ [V1 line] in
            if V2 line \<noteq> [] then
              (let tokens = tokens @ [V2 line] in
               if V3 line \<noteq> [] then
                 (let tokens = tokens @ [V3 line] in
                  if V4 line \<noteq> [] then
                    (let tokens = tokens @ [V4 line] in
                     if V5 line \<noteq> [] then tokens @ [V5 line]
                     else tokens)
                  else tokens)
               else tokens)
            else tokens)
         else tokens)
      else tokens)"

text \<open>
  \<^verbatim>\<open>loadPolicyLine(line, model)\<close>. \<^verbatim>\<open>key[:1]\<close> panics on the empty string; at
  \<^verbatim>\<open>LineEnd\<close> the statement
  \<^verbatim>\<open>model[sec][key].Policy = append(model[sec][key].Policy, tokens)\<close> dereferences the
  pointer \<^verbatim>\<open>model[sec][key]\<close>, which is nil when the section or the key is missing.
  The model is mutated in place; here the updated model is returned.
\<close>

definition loadPolicyLine :: "CasbinRule \<Rightarrow> Model \<Rightarrow> panic + Model" where
  "loadPolicyLine line model =
     (let key = PType line in
      if length key < 1 then Inl SliceBoundsOutOfRange
      else
        let sec = take 1 key;
            tokens = line_tokens line
        in case model sec of
             None \<Rightarrow> Inl NilPointerDereference
           | Some am \<Rightarrow>
               (case am key of
                  None \<Rightarrow> Inl NilPointerDereference
                | Some ast \<Rightarrow>
                    Inr (model(sec \<mapsto> am(key \<mapsto> ast\<lparr>Policy := Policy ast @ [tokens]\<rparr>)))))"

text \<open>The rule list \<^verbatim>\<open>model[sec][key].Policy\<close>, when the assertion exists.\<close>

definition policy_of :: "Model \<Rightarrow> string \<Rightarrow> string \<Rightarrow> string list list option" where
  "policy_of model sec key =
     (case model sec of
        None \<Rightarrow> None
      | Some am \<Rightarrow> (case am key of None \<Rightarrow> None | Some ast \<Rightarrow> Some (Policy ast)))"

subsection \<open>Encoding: \<^verbatim>\<open>policyID\<close> and \<^verbatim>\<open>savePolicyLine\<close>\<close>

text \<open>\<^verbatim>\<open>strings.Join(elems, sep)\<close> of the Go standard library.\<close>

fun strings_Join :: "string list \<Rightarrow> string \<Rightarrow> string" where
  "strings_Join [] sep = []"
| "strings_Join [x] sep = x"
| "strings_Join (x # y # ys) sep = x @ sep @ strings_Join (y # ys) sep"

text \<open>
  \<^verbatim>\<open>fmt.Sprintf("%x", sum)\<close> on a byte array: two lower-case hexadecimal digits for each
  byte, in order.
\<close>

definition hex_digit :: "nat \<Rightarrow> char" where
  "hex_digit n = ''0123456789abcdef'' ! (n mod 16)"

definition hex_byte :: "8 word \<Rightarrow> string" where
  "hex_byte b = [hex_digit (unat b div 16), hex_digit (unat b mod 16)]"

definition sprintf_x :: "8 word list \<Rightarrow> string" where
  "sprintf_x bytes = concat (map hex_byte bytes)"

text \<open>
  \<^verbatim>\<open>policyID(ptype, rule)\<close>. The checksum \<^verbatim>\<open>meow.Checksum(seed, data)\<close> belongs to the
  library \<^verbatim>\<open>github.com/mmcloughlin/meow\<close>, which is not part of this repository: it
  is the parameter \<open>checksum\<close>, a function from the seed and the bytes to the digest
  (the variable \<^verbatim>\<open>sum\<close> of the source is \<open>digest\<close> here).
\<close>

definition policyID :: "(nat \<Rightarrow> string \<Rightarrow> 8 word list) \<Rightarrow> string \<Rightarrow> string list \<Rightarrow> string" where
  "policyID checksum ptype rule =
     (let data = strings_Join ([ptype] @ rule) '','';
          digest = checksum 0 data
      in sprintf_x digest)"

text \<open>
  \<^verbatim>\<open>savePolicyLine(ptype, rule)\<close>. Every \<^verbatim>\<open>rule[k]\<close> is read under \<^verbatim>\<open>len(rule) > k\<close>, so
  no read is out of range; fields that are not assigned keep the zero value \<^verbatim>\<open>""\<close>.
\<close>

definition savePolicyLine ::
  "(nat \<Rightarrow> string \<Rightarrow> 8 word list) \<Rightarrow> string \<Rightarrow> string list \<Rightarrow> CasbinRule" where
  "savePolicyLine checksum ptype rule =
     (let line = \<lparr>ID = [], PType = ptype, V0 = [], V1 = [], V2 = [], V3 = [], V4 = [], V5 = []\<rparr>;
          line = (if length rule > 0 then line\<lparr>V0 := rule ! 0\<rparr> else line);
          line = (if length rule > 1 then line\<lparr>V1 := rule ! 1\<rparr> else line);
          line = (if length rule > 2 then line\<lparr>V2 := rule ! 2\<rparr> else line);
          line = (if length rule > 3 then line\<lparr>V3 := rule ! 3\<rparr> else line);
          line = (if length rule > 4 then line\<lparr>V4 := rule ! 4\<rparr> else line);
          line = (if length rule > 5 then line\<lparr>V5 := rule ! 5\<rparr> else line)
      in line\<lparr>ID := policyID checksum ptype rule\<rparr>)"

text \<open>The six value fields of a record, in order.\<close>

definition value_fields :: "CasbinRule \<Rightarrow> string list" where
  "value_fields line = [V0 line, V1 line, V2 line, V3 line, V4 line, V5 line]"

text \<open>
  The string the specification hashes: the policy type, then every value preceded by
  a comma.
\<close>

definition spec_id_input :: "string \<Rightarrow> string list \<Rightarrow> string" where
  "spec_id_input ptype vals = ptype @ concat (map (\<lambda>v. '','' @ v) vals)"

section \<open>Query builder of \<^verbatim>\<open>RemoveFilteredPolicy\<close>\<close>

text \<open>
  Go's \<^verbatim>\<open>int\<close> is a 64-bit two's-complement integer on the platforms the Cosmos SDK
  supports, and its arithmetic wraps silently. Values are integers here and
  \<open>int64\<close> is the wrap-around of a result.
\<close>

definition int64 :: "int \<Rightarrow> int" where
  "int64 x = (x + 9223372036854775808) mod 18446744073709551616 - 9223372036854775808"

text \<open>\<^verbatim>\<open>xs[i]\<close> on a slice: a panic when the index is out of range.\<close>

definition go_index :: "string list \<Rightarrow> int \<Rightarrow> panic + string" where
  "go_index xs i =
     (if 0 \<le> i \<and> i < int (length xs) then Inr (xs ! nat i) else Inl IndexOutOfRange)"

text \<open>\<^verbatim>\<open>selector := make(map[string]interface{})\<close>; every value stored is a string.\<close>

type_synonym selector = "string \<rightharpoonup> string"

text \<open>
  One of the six blocks
  \<^verbatim>\<open>if fieldIndex <= k && k < fieldIndex+len(fieldValues) {
      if fieldValues[k-fieldIndex] != "" { selector["vk"] = fieldValues[k-fieldIndex] } }\<close>
  for the constant \<open>k\<close> and the key \<open>name\<close>. \<^verbatim>\<open>&&\<close> evaluates its right operand only
  when the left one holds.
\<close>

definition select_slot ::
  "int \<Rightarrow> string list \<Rightarrow> int \<Rightarrow> string \<Rightarrow> selector \<Rightarrow> panic + selector" where
  "select_slot fieldIndex fieldValues k name selector =
     (if fieldIndex \<le> k \<and> k < int64 (fieldIndex + int (length fieldValues)) then
        (case go_index fieldValues (int64 (k - fieldIndex)) of
           Inl p \<Rightarrow> Inl p
         | Inr v \<Rightarrow> if v \<noteq> [] then Inr (selector(name \<mapsto> v)) else Inr selector)
      else Inr selector)"

fun select_slots ::
  "int \<Rightarrow> string list \<Rightarrow> (int \<times> string) list \<Rightarrow> selector \<Rightarrow> panic + selector" where
  "select_slots fieldIndex fieldValues [] selector = Inr selector"
| "select_slots fieldIndex fieldValues ((k, name) # rest) selector =
     (case select_slot fieldIndex fieldValues k name selector of
        Inl p \<Rightarrow> Inl p
      | Inr selector' \<Rightarrow> select_slots fieldIndex fieldValues rest selector')"

text \<open>The six blocks in the order of the source, from the empty map.\<close>

definition build_selector :: "int \<Rightarrow> string list \<Rightarrow> panic + selector" where
  "build_selector fieldIndex fieldValues =
     select_slots fieldIndex fieldValues
       [(0, ''v0''), (1, ''v1''), (2, ''v2''), (3, ''v3''), (4, ''v4''), (5, ''v5'')]
       Map.empty"

text \<open>\<^verbatim>\<open>azcosmos.QueryParameter\<close>; the adapter binds strings only.\<close>

record QueryParameter =
  Name :: string
  Value :: string

text \<open>
  The loop \<^verbatim>\<open>for key, value := range selector\<close>, which extends the query text and the
  parameter list once for each key. Go leaves the order in which \<^verbatim>\<open>range\<close> visits a
  map unspecified, so the order is the argument \<open>visit\<close>: the keys as the run-time
  happens to yield them.
\<close>

fun range_selector ::
  "string list \<Rightarrow> selector \<Rightarrow> string \<times> QueryParameter list \<Rightarrow> string \<times> QueryParameter list" where
  "range_selector [] selector qp = qp"
| "range_selector (key # visit) selector (query, parameters) =
     (case selector key of
        None \<Rightarrow> range_selector visit selector (query, parameters)
      | Some v \<Rightarrow>
          range_selector visit selector
            (query @ '' AND root.'' @ key @ '' = @'' @ key,
             parameters @ [\<lparr>Name = ''@'' @ key, Value = v\<rparr>]))"

definition build_query ::
  "string \<Rightarrow> selector \<Rightarrow> string list \<Rightarrow> string \<times> QueryParameter list" where
  "build_query ptype selector visit =
     range_selector visit selector
       (''SELECT * FROM root WHERE root.pType = @pType'',
        [\<lparr>Name = ''@pType'', Value = ptype\<rparr>])"

text \<open>The key of slot \<open>k\<close>, and the condition the specification gives for a slot to take part.\<close>

definition slot_name :: "int \<Rightarrow> string" where
  "slot_name k = ''v'' @ [''0123456789'' ! nat k]"

definition participates :: "int \<Rightarrow> string list \<Rightarrow> int \<Rightarrow> bool" where
  "participates fieldIndex fieldValues k \<longleftrightarrow>
     fieldIndex \<le> k \<and> k < fieldIndex + int (length fieldValues)
     \<and> fieldValues ! nat (k - fieldIndex) \<noteq> []"

text \<open>What one block does to the selector when nothing overflows.\<close>

definition slot_update :: "int \<Rightarrow> string list \<Rightarrow> int \<Rightarrow> selector \<Rightarrow> selector" where
  "slot_update fieldIndex fieldValues k selector =
     (if participates fieldIndex fieldValues k
      then selector(slot_name k \<mapsto> fieldValues ! nat (k - fieldIndex))
      else selector)"

text \<open>A value that a Go \<^verbatim>\<open>int\<close> can hold.\<close>

definition go_int :: "int \<Rightarrow> bool" where
  "go_int x \<longleftrightarrow> - 9223372036854775808 \<le> x \<and> x < 9223372036854775808"

section \<open>The document store\<close>

text \<open>
  The Cosmos DB container behind \<^verbatim>\<open>a.containerClient\<close> is an external service, reached
  through the azcosmos SDK. What the adapter relies on is modelled here:
  \<^item> a container holds JSON items, each in the logical partition named by its
    \<^verbatim>\<open>pType\<close> (the container is created with partition key path \<^verbatim>\<open>/pType\<close>);
  \<^item> a query pager built with a partition key yields items of that partition only;
  \<^item> every SDK call may fail with an error value.
  An item is a document that \<^verbatim>\<open>json.Unmarshal\<close> decodes into a \<^verbatim>\<open>CasbinRule\<close>, or a
  document of the given partition that it rejects (a field that is not a string).
\<close>

datatype document = Document CasbinRule | Undecodable string

fun partition_of :: "document \<Rightarrow> string" where
  "partition_of (Document r) = PType r"
| "partition_of (Undecodable pk) = pk"

text \<open>
  Go \<^verbatim>\<open>error\<close> values: one made by \<^verbatim>\<open>errors.New\<close>, given by its message (the message
  of \<^verbatim>\<open>save\<close> is \<^verbatim>\<open>"Unable to save policy: unexpected status code %d"\<close>, kept as the
  status code), or one returned by the SDK or by \<^verbatim>\<open>encoding/json\<close>.
\<close>

datatype error =
  ErrorsNew string
  | UnexpectedStatusCode nat
  | External string

text \<open>What a method of the adapter does: it returns an \<^verbatim>\<open>error\<close> (nil is \<open>None\<close>) or panics.\<close>

datatype outcome = Returns "error option" | Panics panic

text \<open>
  The SDK calls the adapter issues, and the answer of the service to one call: a failure,
  or a response with its HTTP status code.
\<close>

datatype sdk_call =
  ContainerDelete
  | CreateContainer string
  | CreateItem string document
  | DeleteItem string string
  | NextPage string string

datatype reply = Fail string | Status nat

text \<open>
  The state of the service: the stored items, the size of a result page, the calls
  received so far, and the failures the environment has in store: \<open>replies\<close> lists the
  answers to the coming calls, and a call after the end of the list succeeds with the
  status code of its kind.
\<close>

record container =
  items :: "document list"
  page_size :: nat
  calls :: "sdk_call list"
  replies :: "reply list"

fun ok_status :: "sdk_call \<Rightarrow> nat" where
  "ok_status ContainerDelete = 204"
| "ok_status (CreateContainer n) = 201"
| "ok_status (CreateItem pk r) = 201"
| "ok_status (DeleteItem pk i) = 204"
| "ok_status (NextPage q pk) = 200"

definition sdk :: "sdk_call \<Rightarrow> container \<Rightarrow> reply \<times> container" where
  "sdk cl c =
     (let c = c\<lparr>calls := calls c @ [cl]\<rparr>
      in case replies c of
           [] \<Rightarrow> (Status (ok_status cl), c)
         | r # rs \<Rightarrow> (r, c\<lparr>replies := rs\<rparr>))"

text \<open>\<^verbatim>\<open>json.Unmarshal(item, &line)\<close>.\<close>

fun json_Unmarshal :: "document \<Rightarrow> error + CasbinRule" where
  "json_Unmarshal (Document r) = Inr r"
| "json_Unmarshal (Undecodable pk) = Inl (External ''json: cannot unmarshal'')"

text \<open>
  The items a pager yields. The text of a query is evaluated by the service: the
  evaluator is the parameter \<open>sql\<close>, except for \<^verbatim>\<open>SELECT * FROM c\<close>, which selects every
  item. The pager is scoped to the partition \<open>pk\<close>.
\<close>

type_synonym evaluator = "string \<Rightarrow> QueryParameter list \<Rightarrow> document \<Rightarrow> bool"

definition select_items ::
  "evaluator \<Rightarrow> container \<Rightarrow> string \<Rightarrow> string \<Rightarrow> QueryParameter list \<Rightarrow> document list" where
  "select_items sql c query pk parameters =
     filter (\<lambda>d. partition_of d = pk \<and> (query = ''SELECT * FROM c'' \<or> sql query parameters d))
       (items c)"

text \<open>The result cut into pages; the first page exists even when nothing matches.\<close>

fun chunk :: "nat \<Rightarrow> 'a list \<Rightarrow> 'a list list" where
  "chunk n xs = (if n = 0 \<or> length xs \<le> n then [xs] else take n xs # chunk n (drop n xs))"

declare chunk.simps [simp del]

definition NewQueryItemsPager ::
  "evaluator \<Rightarrow> container \<Rightarrow> string \<Rightarrow> string \<Rightarrow> QueryParameter list \<Rightarrow> document list list" where
  "NewQueryItemsPager sql c query pk parameters =
     chunk (page_size c) (select_items sql c query pk parameters)"

section \<open>The adapter\<close>

text \<open>
  \<^verbatim>\<open>type adapter struct\<close>: the names, the flag \<^verbatim>\<open>filtered\<close>, and the container its
  clients (\<^verbatim>\<open>containerClient\<close>, \<^verbatim>\<open>db\<close>, \<^verbatim>\<open>client\<close>) talk to.
\<close>

record adapter =
  containerName :: string
  databaseName :: string
  containerClient :: container
  filtered :: bool

text \<open>\<^verbatim>\<open>type SqlQuerySpec struct\<close> of \<^verbatim>\<open>query.go\<close>.\<close>

record SqlQuerySpec =
  Query :: string
  Parameters :: "QueryParameter list"

text \<open>
  The argument \<^verbatim>\<open>filter interface{}\<close> of \<^verbatim>\<open>LoadFilteredPolicy\<close>: a value of dynamic type
  \<^verbatim>\<open>SqlQuerySpec\<close>, or anything else (nil, a pointer, a value of another type).
\<close>

datatype filter_value = IsSqlQuerySpec SqlQuerySpec | OtherValue

subsection \<open>Loading\<close>

text \<open>
  The inner loop \<^verbatim>\<open>for _, item := range res.Items\<close>: every item is unmarshalled and
  appended to \<^verbatim>\<open>lines\<close>; the first error is returned.
\<close>

fun unmarshal_items :: "document list \<Rightarrow> CasbinRule list \<Rightarrow> error + CasbinRule list" where
  "unmarshal_items [] lines = Inr lines"
| "unmarshal_items (item # rest) lines =
     (case json_Unmarshal item of
        Inl err \<Rightarrow> Inl err
      | Inr line \<Rightarrow> unmarshal_items rest (lines @ [line]))"

text \<open>
  The outer loop \<^verbatim>\<open>for queryPager.More() { res, err := queryPager.NextPage(ctx) ... }\<close>
  over the pages of the pager: one SDK call for each page.
\<close>

fun fetch_pages ::
  "string \<Rightarrow> string \<Rightarrow> document list list \<Rightarrow> CasbinRule list \<Rightarrow> container
     \<Rightarrow> (error + CasbinRule list) \<times> container" where
  "fetch_pages query pk [] lines c = (Inr lines, c)"
| "fetch_pages query pk (page # rest) lines c =
     (case sdk (NextPage query pk) c of
        (Fail e, c') \<Rightarrow> (Inl (External e), c')
      | (Status st, c') \<Rightarrow>
          (case unmarshal_items page lines of
             Inl err \<Rightarrow> (Inl err, c')
           | Inr lines' \<Rightarrow> fetch_pages query pk rest lines' c'))"

text \<open>
  The loop \<^verbatim>\<open>for _, line := range lines { loadPolicyLine(line, model) }\<close>. A panic stops
  it and leaves the model as the lines before it have changed it.
\<close>

fun load_lines :: "CasbinRule list \<Rightarrow> Model \<Rightarrow> panic option \<times> Model" where
  "load_lines [] model = (None, model)"
| "load_lines (line # rest) model =
     (case loadPolicyLine line model of
        Inl p \<Rightarrow> (Some p, model)
      | Inr model' \<Rightarrow> load_lines rest model')"

text \<open>\<^verbatim>\<open>func (a *adapter) LoadPolicy(model model.Model) error\<close>.\<close>

definition LoadPolicy :: "evaluator \<Rightarrow> adapter \<Rightarrow> Model \<Rightarrow> outcome \<times> adapter \<times> Model" where
  "LoadPolicy sql a model =
     (let a = a\<lparr>filtered := False\<rparr>;
          loadPolicyQuery = ''SELECT * FROM c'';
          queryPager = NewQueryItemsPager sql (containerClient a) loadPolicyQuery ''p'' []
      in case fetch_pages loadPolicyQuery ''p'' queryPager [] (containerClient a) of
           (Inl err, c) \<Rightarrow> (Returns (Some err), a\<lparr>containerClient := c\<rparr>, model)
         | (Inr lines, c) \<Rightarrow>
             (case load_lines lines model of
                (Some p, model') \<Rightarrow> (Panics p, a\<lparr>containerClient := c\<rparr>, model')
              | (None, model') \<Rightarrow> (Returns None, a\<lparr>containerClient := c\<rparr>, model')))"

text \<open>
  \<^verbatim>\<open>func (a *adapter) LoadFilteredPolicy(model model.Model, filter interface{}) error\<close>.
  The type assertion \<^verbatim>\<open>filter.(SqlQuerySpec)\<close> panics on any other dynamic type, before
  the flag is written.
\<close>

definition LoadFilteredPolicy ::
  "evaluator \<Rightarrow> adapter \<Rightarrow> Model \<Rightarrow> filter_value \<Rightarrow> outcome \<times> adapter \<times> Model" where
  "LoadFilteredPolicy sql a model filter_arg =
     (case filter_arg of
        OtherValue \<Rightarrow> (Panics InterfaceConversion, a, model)
      | IsSqlQuerySpec querySpec \<Rightarrow>
          (let a = a\<lparr>filtered := True\<rparr>;
               queryPager = NewQueryItemsPager sql (containerClient a) (Query querySpec) ''p''
                              (Parameters querySpec)
           in case fetch_pages (Query querySpec) ''p'' queryPager [] (containerClient a) of
                (Inl err, c) \<Rightarrow> (Returns (Some err), a\<lparr>containerClient := c\<rparr>, model)
              | (Inr lines, c) \<Rightarrow>
                  (case load_lines lines model of
                     (Some p, model') \<Rightarrow> (Panics p, a\<lparr>containerClient := c\<rparr>, model')
                   | (None, model') \<Rightarrow> (Returns None, a\<lparr>containerClient := c\<rparr>, model'))))"

text \<open>\<^verbatim>\<open>func (a *adapter) IsFiltered() bool\<close>.\<close>

definition IsFiltered :: "adapter \<Rightarrow> bool" where
  "IsFiltered a = filtered a"

subsection \<open>Saving\<close>

text \<open>
  \<^verbatim>\<open>func (a *adapter) dropCollection() error\<close>: the container is deleted, with all its
  items, and created again under the same name.
\<close>

definition dropCollection :: "adapter \<Rightarrow> error option \<times> adapter" where
  "dropCollection a =
     (case sdk ContainerDelete (containerClient a) of
        (Fail e, c) \<Rightarrow> (Some (External e), a\<lparr>containerClient := c\<rparr>)
      | (Status st, c) \<Rightarrow>
          (case sdk (CreateContainer (containerName a)) (c\<lparr>items := []\<rparr>) of
             (Fail e, c') \<Rightarrow> (Some (External e), a\<lparr>containerClient := c'\<rparr>)
           | (Status st', c') \<Rightarrow> (None, a\<lparr>containerClient := c'\<rparr>)))"

text \<open>
  \<^verbatim>\<open>json.Marshal\<close> writes a Go string as a JSON string, and a JSON string is valid
  UTF-8: the encoder walks the bytes with \<^verbatim>\<open>utf8.DecodeRuneInString\<close> and writes the
  replacement character U+FFFD (the bytes \<open>EF BF BD\<close>) for every byte at which no valid
  encoding starts. Its escapes are undone when the item is read back, so what the
  stored item decodes to is the record with every string coerced in this way.

  \<open>first_byte\<close> is the table of \<^verbatim>\<open>unicode/utf8\<close> for the leading byte of a multi-byte
  encoding: its length, and the range of the second byte.
\<close>

definition in_range :: "char \<Rightarrow> nat \<Rightarrow> nat \<Rightarrow> bool" where
  "in_range c lo hi \<longleftrightarrow> lo \<le> of_char c \<and> (of_char c :: nat) \<le> hi"

definition first_byte :: "char \<Rightarrow> (nat \<times> nat \<times> nat) option" where
  "first_byte c =
     (if in_range c 194 223 then Some (2, 128, 191)
      else if in_range c 224 224 then Some (3, 160, 191)
      else if in_range c 225 236 then Some (3, 128, 191)
      else if in_range c 237 237 then Some (3, 128, 159)
      else if in_range c 238 239 then Some (3, 128, 191)
      else if in_range c 240 240 then Some (4, 144, 191)
      else if in_range c 241 243 then Some (4, 128, 191)
      else if in_range c 244 244 then Some (4, 128, 143)
      else None)"

text \<open>
  \<^verbatim>\<open>utf8.DecodeRuneInString\<close>, as far as the encoder needs it: the width of the valid
  encoding at the head of a non-empty string, or \<open>None\<close> for \<^verbatim>\<open>(RuneError, 1)\<close>.
\<close>

definition DecodeRune_size :: "string \<Rightarrow> nat option" where
  "DecodeRune_size p =
     (case p of
        [] \<Rightarrow> None
      | p0 # rest \<Rightarrow>
          if in_range p0 0 127 then Some 1
          else
            (case first_byte p0 of
               None \<Rightarrow> None
             | Some (sz, lo, hi) \<Rightarrow>
                 if length p < sz then None
                 else if in_range (p ! 1) lo hi then
                   (if sz \<le> 2 then Some 2
                    else if in_range (p ! 2) 128 191 then
                      (if sz \<le> 3 then Some 3
                       else if in_range (p ! 3) 128 191 then Some 4
                       else None)
                    else None)
                 else None))"

text \<open>The loop of the encoder over the bytes of a string.\<close>

function coerce_utf8 :: "string \<Rightarrow> string" where
  "coerce_utf8 [] = []"
| "coerce_utf8 (c # cs) =
     (case DecodeRune_size (c # cs) of
        None \<Rightarrow> [CHR 0xEF, CHR 0xBF, CHR 0xBD] @ coerce_utf8 cs
      | Some sz \<Rightarrow> take sz (c # cs) @ coerce_utf8 (drop (sz - 1) cs))"
  by pat_completeness auto
termination
  by (relation "measure length") auto

text \<open>
  \<^verbatim>\<open>json.Marshal(policy)\<close>: the item that the service receives. Marshalling a struct of
  strings returns no error.
\<close>

definition json_Marshal :: "CasbinRule \<Rightarrow> document" where
  "json_Marshal policy =
     Document
       \<lparr>ID = coerce_utf8 (ID policy), PType = coerce_utf8 (PType policy),
        V0 = coerce_utf8 (V0 policy), V1 = coerce_utf8 (V1 policy),
        V2 = coerce_utf8 (V2 policy), V3 = coerce_utf8 (V3 policy),
        V4 = coerce_utf8 (V4 policy), V5 = coerce_utf8 (V5 policy)\<rparr>"

text \<open>
  \<^verbatim>\<open>func (a *adapter) save(ctx, policy CasbinRule) error\<close>: the record is marshalled and
  sent with the partition key \<^verbatim>\<open>policy.PType\<close>. The SDK writes the partition key as JSON
  too, so the item lands in the partition of its coerced policy type. The service
  stores the item on a successful call.
\<close>

definition save :: "adapter \<Rightarrow> CasbinRule \<Rightarrow> error option \<times> adapter" where
  "save a policy =
     (let marshalled = json_Marshal policy
      in case sdk (CreateItem (PType policy) marshalled) (containerClient a) of
           (Fail e, c) \<Rightarrow> (Some (External e), a\<lparr>containerClient := c\<rparr>)
         | (Status statusCode, c) \<Rightarrow>
             (let a = a\<lparr>containerClient := c\<lparr>items := items c @ [marshalled]\<rparr>\<rparr>
              in if statusCode \<noteq> 201 then (Some (UnexpectedStatusCode statusCode), a)
                 else (None, a)))"

text \<open>
  The loops \<^verbatim>\<open>for ptype, ast := range model["p"] { for _, rule := range ast.Policy { ... } }\<close>
  of \<^verbatim>\<open>SavePolicy\<close>. The order in which \<^verbatim>\<open>range\<close> visits the keys of the map is the
  argument \<open>visit\<close>. Ranging over a nil map runs no iteration.
\<close>

fun collect_lines ::
  "(nat \<Rightarrow> string \<Rightarrow> 8 word list) \<Rightarrow> string list \<Rightarrow> AssertionMap \<Rightarrow> CasbinRule list
     \<Rightarrow> CasbinRule list" where
  "collect_lines checksum [] am lines = lines"
| "collect_lines checksum (ptype # visit) am lines =
     (case am ptype of
        None \<Rightarrow> collect_lines checksum visit am lines
      | Some ast \<Rightarrow>
          collect_lines checksum visit am (lines @ map (savePolicyLine checksum ptype) (Policy ast)))"

definition collect_section ::
  "(nat \<Rightarrow> string \<Rightarrow> 8 word list) \<Rightarrow> string list \<Rightarrow> Model \<Rightarrow> string \<Rightarrow> CasbinRule list
     \<Rightarrow> CasbinRule list" where
  "collect_section checksum visit model sec lines =
     (case model sec of
        None \<Rightarrow> lines
      | Some am \<Rightarrow> collect_lines checksum visit am lines)"

text \<open>The loop \<^verbatim>\<open>for _, line := range lines { if err := a.save(ctx, line); err != nil { return err } }\<close>.\<close>

fun save_lines :: "adapter \<Rightarrow> CasbinRule list \<Rightarrow> error option \<times> adapter" where
  "save_lines a [] = (None, a)"
| "save_lines a (line # rest) =
     (case save a line of
        (Some err, a') \<Rightarrow> (Some err, a')
      | (None, a') \<Rightarrow> save_lines a' rest)"

text \<open>
  \<^verbatim>\<open>func (a *adapter) SavePolicy(model model.Model) error\<close>; \<open>visit_p\<close> and \<open>visit_g\<close> are
  the orders in which the two \<^verbatim>\<open>range\<close> loops visit \<^verbatim>\<open>model["p"]\<close> and \<^verbatim>\<open>model["g"]\<close>.
\<close>

definition SavePolicy ::
  "(nat \<Rightarrow> string \<Rightarrow> 8 word list) \<Rightarrow> string list \<Rightarrow> string list \<Rightarrow> adapter \<Rightarrow> Model
     \<Rightarrow> error option \<times> adapter" where
  "SavePolicy checksum visit_p visit_g a model =
     (if filtered a then (Some (ErrorsNew ''cannot save a filtered policy''), a)
      else
        case dropCollection a of
          (Some err, a') \<Rightarrow> (Some err, a')
        | (None, a') \<Rightarrow>
            (let lines = [];
                 lines = collect_section checksum visit_p model ''p'' lines;
                 lines = collect_section checksum visit_g model ''g'' lines
             in save_lines a' lines))"

text \<open>
  \<^verbatim>\<open>func (a *adapter) AddPolicy(sec string, ptype string, rule []string) error\<close>.
\<close>

definition AddPolicy ::
  "(nat \<Rightarrow> string \<Rightarrow> 8 word list) \<Rightarrow> adapter \<Rightarrow> string \<Rightarrow> string \<Rightarrow> string list
     \<Rightarrow> error option \<times> adapter" where
  "AddPolicy checksum a sec ptype rule =
     (let policy = savePolicyLine checksum ptype rule in save a policy)"

subsection \<open>Removing\<close>

text \<open>
  The effect of a successful \<^verbatim>\<open>DeleteItem(partitionKey, id)\<close>: the item of that
  partition with that identifier is gone.
\<close>

fun is_item :: "string \<Rightarrow> string \<Rightarrow> document \<Rightarrow> bool" where
  "is_item pk i (Document r) = (PType r = pk \<and> ID r = i)"
| "is_item pk i (Undecodable pk') = False"

definition DeleteItem_call :: "adapter \<Rightarrow> string \<Rightarrow> string \<Rightarrow> error option \<times> adapter" where
  "DeleteItem_call a pk i =
     (case sdk (DeleteItem pk i) (containerClient a) of
        (Fail e, c) \<Rightarrow> (Some (External e), a\<lparr>containerClient := c\<rparr>)
      | (Status st, c) \<Rightarrow>
          (None, a\<lparr>containerClient := c\<lparr>items := filter (\<lambda>d. \<not> is_item pk i d) (items c)\<rparr>\<rparr>))"

text \<open>
  \<^verbatim>\<open>func (a *adapter) RemovePolicy(sec string, ptype string, rule []string) error\<close>.
\<close>

definition RemovePolicy ::
  "(nat \<Rightarrow> string \<Rightarrow> 8 word list) \<Rightarrow> adapter \<Rightarrow> string \<Rightarrow> string \<Rightarrow> string list
     \<Rightarrow> error option \<times> adapter" where
  "RemovePolicy checksum a sec ptype rule =
     (let policy = savePolicyLine checksum ptype rule
      in DeleteItem_call a (PType policy) (ID policy))"

text \<open>
  The loop \<^verbatim>\<open>for _, policy := range policies { _, err := a.containerClient.DeleteItem(...) ... }\<close>
  at the end of \<^verbatim>\<open>RemoveFilteredPolicy\<close>.
\<close>

fun delete_policies :: "adapter \<Rightarrow> CasbinRule list \<Rightarrow> error option \<times> adapter" where
  "delete_policies a [] = (None, a)"
| "delete_policies a (policy # rest) =
     (case DeleteItem_call a (PType policy) (ID policy) of
        (Some err, a') \<Rightarrow> (Some err, a')
      | (None, a') \<Rightarrow> delete_policies a' rest)"

text \<open>
  \<^verbatim>\<open>func (a *adapter) RemoveFilteredPolicy(sec string, ptype string, fieldIndex int,
  fieldValues ...string) error\<close>: the selector, the query built from it (\<open>visit\<close> is the
  order in which \<^verbatim>\<open>range\<close> visits the selector), the matching records fetched from the
  partition \<^verbatim>\<open>ptype\<close>, and their deletion one by one.
\<close>

definition RemoveFilteredPolicy ::
  "evaluator \<Rightarrow> string list \<Rightarrow> adapter \<Rightarrow> string \<Rightarrow> string \<Rightarrow> int \<Rightarrow> string list
     \<Rightarrow> outcome \<times> adapter" where
  "RemoveFilteredPolicy sql visit a sec ptype fieldIndex fieldValues =
     (case build_selector fieldIndex fieldValues of
        Inl p \<Rightarrow> (Panics p, a)
      | Inr selector \<Rightarrow>
          (case build_query ptype selector visit of
             (query, parameters) \<Rightarrow>
               (let queryPager = NewQueryItemsPager sql (containerClient a) query ptype parameters
                in case fetch_pages query ptype queryPager [] (containerClient a) of
                     (Inl err, c) \<Rightarrow> (Returns (Some err), a\<lparr>containerClient := c\<rparr>)
                   | (Inr policies, c) \<Rightarrow>
                       (case delete_policies (a\<lparr>containerClient := c\<rparr>) policies of
                          (r, a') \<Rightarrow> (Returns r, a')))))"

text \<open>A model with one empty rule list for each of the policy types \<^verbatim>\<open>p\<close> and \<^verbatim>\<open>g\<close>.\<close>

definition fresh_model :: Model where
  "fresh_model =
     [''p'' \<mapsto> [''p'' \<mapsto> \<lparr>Policy = []\<rparr>], ''g'' \<mapsto> [''g'' \<mapsto> \<lparr>Policy = []\<rparr>]]"

section \<open>Example states\<close>

text \<open>
  The states the concrete evaluations below start from: a permission rule and a role
  rule as the adapter stores them, a container holding both, an adapter on that
  container, and an evaluator under which a query text selects every item.
\<close>

definition rule_alice :: CasbinRule where
  "rule_alice =
     \<lparr>ID = ''1'', PType = ''p'', V0 = ''alice'', V1 = ''data1'', V2 = ''read'',
      V3 = [], V4 = [], V5 = []\<rparr>"

definition rule_role :: CasbinRule where
  "rule_role =
     \<lparr>ID = ''2'', PType = ''g'', V0 = ''alice'', V1 = ''data2_admin'', V2 = [],
      V3 = [], V4 = [], V5 = []\<rparr>"

definition example_container :: container where
  "example_container =
     \<lparr>items = [Document rule_alice, Document rule_role], page_size = 10, calls = [],
      replies = []\<rparr>"

definition example_adapter :: adapter where
  "example_adapter =
     \<lparr>containerName = ''casbin_rule'', databaseName = ''casbin'',
      containerClient = example_container, filtered = False\<rparr>"

definition every_item :: evaluator where
  "every_item query parameters d = True"

text \<open>A stand-in for the checksum: the length of the data and one fixed byte.\<close>

definition example_checksum :: "nat \<Rightarrow> string \<Rightarrow> 8 word list" where
  "example_checksum seed data = [of_nat (length data), 171]"


section \<open>Properties of the record codec\<close>

subsection \<open>Auxiliary facts\<close>

lemma line_tokens_takeWhile:
  "line_tokens line = takeWhile (\<lambda>s. s \<noteq> []) (value_fields line)"
  by (simp add: line_tokens_def value_fields_def Let_def)

lemma loadPolicyLine_appends:
  assumes "PType line \<noteq> []"
    and "policy_of model (take 1 (PType line)) (PType line) = Some rules"
  shows "\<exists>model'. loadPolicyLine line model = Inr model'
           \<and> policy_of model' (take 1 (PType line)) (PType line) = Some (rules @ [line_tokens line])"
  using assms
  by (auto simp add: loadPolicyLine_def policy_of_def Let_def split: option.splits)

lemma loadPolicyLine_returns_iff:
  "(\<exists>model'. loadPolicyLine line model = Inr model') \<longleftrightarrow>
     PType line \<noteq> [] \<and> policy_of model (take 1 (PType line)) (PType line) \<noteq> None"
  by (auto simp add: loadPolicyLine_def policy_of_def Let_def split: option.splits)

lemma strings_Join_Cons:
  "strings_Join (x # xs) sep = x @ concat (map (\<lambda>v. sep @ v) xs)"
  by (induction xs arbitrary: x) auto

lemma upt_6: "[0..<6] = [0, 1, 2, 3, 4, 5]"
  by (simp add: upt_rec)

lemma value_fields_savePolicyLine_nth:
  "value_fields (savePolicyLine checksum ptype rule) =
     map (\<lambda>k. if k < length rule then rule ! k else []) [0..<6]"
  by (simp add: savePolicyLine_def value_fields_def Let_def upt_6)

lemma value_fields_savePolicyLine:
  assumes "length rule \<le> 6"
  shows "value_fields (savePolicyLine checksum ptype rule) = rule @ replicate (6 - length rule) []"
proof (rule nth_equalityI)
  show "length (value_fields (savePolicyLine checksum ptype rule))
          = length (rule @ replicate (6 - length rule) [])"
    using assms by (simp add: value_fields_savePolicyLine_nth)
next
  fix i
  assume "i < length (value_fields (savePolicyLine checksum ptype rule))"
  then have "i < 6"
    by (simp add: value_fields_savePolicyLine_nth)
  then show "value_fields (savePolicyLine checksum ptype rule) ! i
               = (rule @ replicate (6 - length rule) []) ! i"
    using assms by (simp add: value_fields_savePolicyLine_nth nth_append del: upt_Suc)
qed

lemma takeWhile_append_replicate:
  "\<forall>x\<in>set xs. P x \<Longrightarrow> \<not> P y \<Longrightarrow> takeWhile P (xs @ replicate n y) = xs"
  by (induction xs) (auto simp: takeWhile_replicate)

lemma line_tokens_savePolicyLine:
  assumes "length rule \<le> 6" and "\<forall>v\<in>set rule. v \<noteq> []"
  shows "line_tokens (savePolicyLine checksum ptype rule) = rule"
  using assms
  by (simp add: line_tokens_takeWhile value_fields_savePolicyLine takeWhile_append_replicate)

lemma PType_savePolicyLine: "PType (savePolicyLine checksum ptype rule) = ptype"
  by (simp add: savePolicyLine_def Let_def)

lemma ID_savePolicyLine: "ID (savePolicyLine checksum ptype rule) = policyID checksum ptype rule"
  by (simp add: savePolicyLine_def Let_def)

subsection \<open>Decoding\<close>

text \<open>
  C1, as the code has it. The specification says that a record whose \<^verbatim>\<open>v0\<close> is empty leaves the
  rule list unchanged. The statement at \<^verbatim>\<open>LineEnd\<close> is not guarded: decoding the record
  \<open>\<lparr>pType = "p", v0 = ""\<rparr>\<close> into a model whose list for \<^verbatim>\<open>p\<close> is empty leaves the list
  \<open>[[]]\<close>, one empty rule.
\<close>

theorem C1_empty_v0_counterexample:
  "loadPolicyLine
     \<lparr>ID = ''1'', PType = ''p'', V0 = [], V1 = [], V2 = [], V3 = [], V4 = [], V5 = []\<rparr>
     fresh_model
   = Inr (fresh_model(''p'' \<mapsto> [''p'' \<mapsto> \<lparr>Policy = [[]]\<rparr>]))
   \<and> policy_of fresh_model ''p'' ''p'' = Some []
   \<and> policy_of (fresh_model(''p'' \<mapsto> [''p'' \<mapsto> \<lparr>Policy = [[]]\<rparr>])) ''p'' ''p'' = Some [[]]"
  by (simp add: loadPolicyLine_def fresh_model_def policy_of_def line_tokens_def Let_def)

text \<open>
  C1, amended: for every record with a non-empty policy type whose assertion exists in
  the model, decoding appends the decoded tuple to the rule list of the record's
  policy type, whether the tuple is empty or not; the tuple is empty exactly when \<^verbatim>\<open>v0\<close>
  is, and then the list grows by one empty rule.
\<close>

theorem C1_decode_appends_tuple:
  assumes "PType line \<noteq> []"
    and "policy_of model (take 1 (PType line)) (PType line) = Some rules"
  shows "\<exists>model'. loadPolicyLine line model = Inr model'
           \<and> policy_of model' (take 1 (PType line)) (PType line) = Some (rules @ [line_tokens line])
           \<and> (line_tokens line = [] \<longleftrightarrow> V0 line = [])
           \<and> (V0 line = [] \<longrightarrow>
                policy_of model' (take 1 (PType line)) (PType line) = Some (rules @ [[]]))"
proof -
  have e: "line_tokens line = [] \<longleftrightarrow> V0 line = []"
    by (simp add: line_tokens_def Let_def)
  obtain model' where m: "loadPolicyLine line model = Inr model'"
    "policy_of model' (take 1 (PType line)) (PType line) = Some (rules @ [line_tokens line])"
    using loadPolicyLine_appends[OF assms] by blast
  show ?thesis
    using m e by auto
qed

theorem C1_decode_appends_tuple_witness:
  "PType (rule_alice\<lparr>V0 := []\<rparr>) \<noteq> []
   \<and> policy_of fresh_model (take 1 (PType (rule_alice\<lparr>V0 := []\<rparr>))) (PType (rule_alice\<lparr>V0 := []\<rparr>))
       = Some []
   \<and> (\<exists>model'. loadPolicyLine (rule_alice\<lparr>V0 := []\<rparr>) fresh_model = Inr model'
         \<and> policy_of model' ''p'' ''p'' = Some [[]])"
proof -
  have h1: "PType (rule_alice\<lparr>V0 := []\<rparr>) \<noteq> []"
    by (simp add: rule_alice_def)
  have h2: "policy_of fresh_model (take 1 (PType (rule_alice\<lparr>V0 := []\<rparr>)))
              (PType (rule_alice\<lparr>V0 := []\<rparr>)) = Some []"
    by (simp add: rule_alice_def policy_of_def fresh_model_def)
  show ?thesis
    using C1_decode_appends_tuple[OF h1 h2] h1 h2 by (auto simp add: rule_alice_def)
qed



text \<open>
  C8, as the code has it. The specification says that decoding completes on every record, an
  empty policy type included. \<^verbatim>\<open>key[:1]\<close> is evaluated first and panics on the empty
  string.
\<close>

theorem C8_empty_ptype_counterexample:
  "loadPolicyLine
     \<lparr>ID = ''1'', PType = [], V0 = ''a'', V1 = [], V2 = [], V3 = [], V4 = [], V5 = []\<rparr>
     fresh_model
   = Inl SliceBoundsOutOfRange"
  by (simp add: loadPolicyLine_def)

text \<open>
  C8, amended: decoding completes without a panic exactly on the records whose policy
  type is non-empty and has an assertion in the model under the section named by its
  first byte; the value fields play no part, so records with gaps are decoded too.
\<close>

theorem C8_decode_completes_iff:
  "(\<exists>model'. loadPolicyLine line model = Inr model') \<longleftrightarrow>
     PType line \<noteq> [] \<and> policy_of model (take 1 (PType line)) (PType line) \<noteq> None"
  by (rule loadPolicyLine_returns_iff)

theorem C8_decode_completes_iff_witness:
  "\<exists>model'. loadPolicyLine
       \<lparr>ID = ''7'', PType = ''g'', V0 = [], V1 = ''x'', V2 = [], V3 = ''y'', V4 = [], V5 = []\<rparr>
       fresh_model = Inr model'"
  using C8_decode_completes_iff
          [of "\<lparr>ID = ''7'', PType = ''g'', V0 = [], V1 = ''x'', V2 = [], V3 = ''y'', V4 = [], V5 = []\<rparr>"
              fresh_model]
  by (simp add: policy_of_def fresh_model_def)

subsection \<open>Encoding\<close>

text \<open>
  C5: the identifier of the encoded record is the hexadecimal digest of the checksum,
  with seed 0, of the policy type followed by every value, each preceded by a comma.
  For at most six values the fields \<^verbatim>\<open>v0\<close> to \<^verbatim>\<open>v5\<close> are the values in order, filled up
  with empty strings. Encoding is a function of the pair only: equal pairs give
  equal records.
\<close>

theorem C5_identifier_and_fields:
  "ID (savePolicyLine checksum ptype rule) = sprintf_x (checksum 0 (spec_id_input ptype rule))
   \<and> PType (savePolicyLine checksum ptype rule) = ptype
   \<and> (length rule \<le> 6 \<longrightarrow>
        value_fields (savePolicyLine checksum ptype rule) = rule @ replicate (6 - length rule) [])
   \<and> (ptype' = ptype \<and> rule' = rule \<longrightarrow>
        savePolicyLine checksum ptype' rule' = savePolicyLine checksum ptype rule)"
proof (intro conjI impI)
  show "ID (savePolicyLine checksum ptype rule) = sprintf_x (checksum 0 (spec_id_input ptype rule))"
    by (simp add: ID_savePolicyLine policyID_def spec_id_input_def strings_Join_Cons)
  show "PType (savePolicyLine checksum ptype rule) = ptype"
    by (rule PType_savePolicyLine)
  show "value_fields (savePolicyLine checksum ptype rule) = rule @ replicate (6 - length rule) []"
    if "length rule \<le> 6"
    using that by (rule value_fields_savePolicyLine)
  show "savePolicyLine checksum ptype' rule' = savePolicyLine checksum ptype rule"
    if "ptype' = ptype \<and> rule' = rule"
    using that by simp
qed

theorem C5_identifier_and_fields_witness:
  "ID (savePolicyLine (\<lambda>seed data. [of_nat (length data), 171]) ''p''
         [''alice'', ''data1'', ''read'']) = ''12ab''
   \<and> value_fields (savePolicyLine (\<lambda>seed data. [of_nat (length data), 171]) ''p''
         [''alice'', ''data1'', ''read'']) = [''alice'', ''data1'', ''read'', [], [], []]"
  using C5_identifier_and_fields
          [of "\<lambda>seed data. [of_nat (length data), 171]" "''p''" "[''alice'', ''data1'', ''read'']"
              "''p''" "[''alice'', ''data1'', ''read'']"]
  by (simp add: spec_id_input_def sprintf_x_def hex_byte_def hex_digit_def numeral_3_eq_3)

text \<open>
  C6, as the code has it. The specification says that the round trip holds for every
  policy type. Encoding accepts any policy type, and decoding the encoded record panics
  when the policy type is empty (\<^verbatim>\<open>key[:1]\<close>) and when the model has no assertion for it
  (a nil pointer), as for \<^verbatim>\<open>p2\<close> in a model that declares \<^verbatim>\<open>p\<close> and \<^verbatim>\<open>g\<close> only: no tuple
  is produced then.
\<close>

theorem C6_round_trip_counterexample:
  "loadPolicyLine (savePolicyLine example_checksum [] [''alice'', ''data1'']) fresh_model
     = Inl SliceBoundsOutOfRange
   \<and> loadPolicyLine (savePolicyLine example_checksum ''p2'' [''alice'', ''data1'']) fresh_model
     = Inl NilPointerDereference"
  by (simp add: loadPolicyLine_def savePolicyLine_def fresh_model_def Let_def)

text \<open>
  C6, amended: for a rule of at most six non-empty values and a non-empty policy type
  that has an assertion in the model under the section named by its first character,
  decoding the encoded record returns and appends exactly the rule to the list under
  that section and policy type.
\<close>

theorem C6_decode_encode_round_trip:
  assumes "length rule \<le> 6" and "\<forall>v\<in>set rule. v \<noteq> []"
    and "ptype \<noteq> []"
    and "policy_of model [hd ptype] ptype = Some rules"
  shows "line_tokens (savePolicyLine checksum ptype rule) = rule
     \<and> (\<exists>model'. loadPolicyLine (savePolicyLine checksum ptype rule) model = Inr model'
           \<and> policy_of model' [hd ptype] ptype = Some (rules @ [rule]))"
proof -
  let ?line = "savePolicyLine checksum ptype rule"
  have t: "line_tokens ?line = rule"
    using assms(1,2) by (rule line_tokens_savePolicyLine)
  have s: "take (Suc 0) ptype = [hd ptype]"
    using assms(3) by (cases ptype) simp_all
  have "PType ?line \<noteq> []"
    using assms(3) by (simp add: PType_savePolicyLine)
  moreover have "policy_of model (take 1 (PType ?line)) (PType ?line) = Some rules"
    using assms(4) by (simp add: PType_savePolicyLine s)
  ultimately have "\<exists>model'. loadPolicyLine ?line model = Inr model'
      \<and> policy_of model' (take 1 (PType ?line)) (PType ?line) = Some (rules @ [line_tokens ?line])"
    by (rule loadPolicyLine_appends)
  then show ?thesis
    using t by (simp add: PType_savePolicyLine s)
qed

theorem C6_decode_encode_round_trip_witness:
  "policy_of fresh_model [hd ''g''] ''g'' = Some []
   \<and> (\<exists>model'. loadPolicyLine
                  (savePolicyLine (\<lambda>seed data. [171]) ''g'' [''alice'', ''data2_admin''])
                  fresh_model = Inr model'
         \<and> policy_of model' ''g'' ''g'' = Some [[''alice'', ''data2_admin'']])"
proof -
  have h1: "length [''alice'', ''data2_admin''] \<le> 6" by simp
  have h2: "\<forall>v\<in>set [''alice'', ''data2_admin'']. v \<noteq> []" by simp
  have h3: "''g'' \<noteq> []" by simp
  have h4: "policy_of fresh_model [hd ''g''] ''g'' = Some []"
    by (simp add: policy_of_def fresh_model_def)
  show ?thesis
    using C6_decode_encode_round_trip[OF h1 h2 h3 h4, of "\<lambda>seed data. [171]"] h4 by simp
qed


section \<open>Properties of the query builder\<close>

subsection \<open>Auxiliary facts\<close>


lemma int64_id: "- 9223372036854775808 \<le> x \<Longrightarrow> x < 9223372036854775808 \<Longrightarrow> int64 x = x"
  by (simp add: int64_def)

lemma int64_over:
  assumes "9223372036854775808 \<le> x" "x < 27670116110564327424"
  shows "int64 x = x - 18446744073709551616"
proof -
  have "(x + 9223372036854775808) mod 18446744073709551616 = x - 9223372036854775808"
    by (rule int_mod_pos_eq[where q = 1]) (use assms in simp_all)
  then show ?thesis by (simp add: int64_def)
qed

lemma guard_no_overflow:
  assumes fi: "go_int fi" and len: "int (length fvs) < 9223372036854775808"
    and k: "0 \<le> k" "k \<le> 5"
    and g: "fi \<le> k" "k < int64 (fi + int (length fvs))"
  shows "int64 (fi + int (length fvs)) = fi + int (length fvs)"
proof -
  define y where "y = fi + int (length fvs)"
  have lo: "- 9223372036854775808 \<le> y" using fi by (simp add: go_int_def y_def)
  have up: "y < 9223372036854775813" using len g(1) k(2) by (simp add: y_def)
  have hi: "y < 9223372036854775808"
  proof (rule ccontr)
    assume "\<not> ?thesis"
    then have a: "9223372036854775808 \<le> y" by simp
    have "int64 y = y - 18446744073709551616"
      using a up by (intro int64_over) simp_all
    then show False using g(2) up k(1) by (simp add: y_def)
  qed
  show ?thesis using lo hi unfolding y_def[symmetric] by (rule int64_id)
qed

lemma guard_in_bounds:
  assumes fi: "go_int fi" and len: "int (length fvs) < 9223372036854775808"
    and k: "0 \<le> k" "k \<le> 5"
    and g: "fi \<le> k" "k < int64 (fi + int (length fvs))"
  shows "int64 (k - fi) = k - fi \<and> 0 \<le> k - fi \<and> k - fi < int (length fvs)"
proof -
  have w: "int64 (fi + int (length fvs)) = fi + int (length fvs)"
    using assms by (rule guard_no_overflow)
  have l: "k - fi < int (length fvs)" using g w by simp
  have "int64 (k - fi) = k - fi" using l g(1) len by (intro int64_id) simp_all
  then show ?thesis using l g(1) by simp
qed


lemma select_slot_returns:
  assumes "go_int fi" "int (length fvs) < 9223372036854775808" "0 \<le> k" "k \<le> 5"
  shows "\<exists>sel'. select_slot fi fvs k name sel = Inr sel'"
proof (cases "fi \<le> k \<and> k < int64 (fi + int (length fvs))")
  case True
  then have "int64 (k - fi) = k - fi \<and> 0 \<le> k - fi \<and> k - fi < int (length fvs)"
    using assms by (intro guard_in_bounds) simp_all
  then show ?thesis using True by (simp add: select_slot_def go_index_def)
next
  case False
  then show ?thesis by (auto simp add: select_slot_def)
qed

lemma select_slots_returns:
  assumes "go_int fi" "int (length fvs) < 9223372036854775808"
    and "\<forall>(k, name)\<in>set slots. 0 \<le> k \<and> k \<le> 5"
  shows "\<exists>sel'. select_slots fi fvs slots sel = Inr sel'"
  using assms(3)
proof (induction slots arbitrary: sel)
  case Nil
  then show ?case by simp
next
  case (Cons s slots)
  obtain k name where s: "s = (k, name)" by (cases s)
  with Cons.prems have "0 \<le> k" "k \<le> 5" by simp_all
  then obtain sel' where "select_slot fi fvs k name sel = Inr sel'"
    using select_slot_returns[OF assms(1,2)] by blast
  moreover have "\<exists>sel''. select_slots fi fvs slots sel' = Inr sel''"
    using Cons by simp
  ultimately show ?case by (simp add: s)
qed

lemma window_exact:
  assumes "go_int fi" "int (length fvs) + 5 < 9223372036854775808" "0 \<le> k" "k \<le> 5"
  shows "(fi \<le> k \<and> k < int64 (fi + int (length fvs))) \<longleftrightarrow> (fi \<le> k \<and> k < fi + int (length fvs))"
proof (cases "fi \<le> k")
  case True
  have "int64 (fi + int (length fvs)) = fi + int (length fvs)"
    using assms True by (intro int64_id) (simp_all add: go_int_def)
  then show ?thesis by simp
next
  case False
  then show ?thesis by simp
qed

lemma select_slot_spec:
  assumes "go_int fi" "int (length fvs) + 5 < 9223372036854775808" "0 \<le> k" "k \<le> 5"
  shows "select_slot fi fvs k name sel =
     Inr (if participates fi fvs k then sel(name \<mapsto> fvs ! nat (k - fi)) else sel)"
proof (cases "fi \<le> k \<and> k < int64 (fi + int (length fvs))")
  case True
  have "int (length fvs) < 9223372036854775808" using assms(2) by simp
  then have "int64 (k - fi) = k - fi \<and> 0 \<le> k - fi \<and> k - fi < int (length fvs)"
    using assms True by (intro guard_in_bounds) simp_all
  moreover have "fi \<le> k \<and> k < fi + int (length fvs)"
    using True window_exact[OF assms] by simp
  ultimately show ?thesis using True
    by (simp add: select_slot_def go_index_def participates_def)
next
  case False
  then have "\<not> participates fi fvs k"
    using window_exact[OF assms] by (auto simp add: participates_def)
  then show ?thesis using False by (auto simp add: select_slot_def)
qed

lemma slot_names: "slot_name 0 = ''v0''" "slot_name 1 = ''v1''" "slot_name 2 = ''v2''"
  "slot_name 3 = ''v3''" "slot_name 4 = ''v4''" "slot_name 5 = ''v5''"
  by (simp_all add: slot_name_def)

lemma build_selector_spec:
  assumes "go_int fi" "int (length fvs) + 5 < 9223372036854775808"
  shows "build_selector fi fvs = Inr (slot_update fi fvs 5 (slot_update fi fvs 4 (slot_update fi fvs 3
     (slot_update fi fvs 2 (slot_update fi fvs 1 (slot_update fi fvs 0 Map.empty))))))"
  unfolding build_selector_def slot_update_def slot_names
  by (simp add: select_slot_spec[OF assms])

lemma slots_cases: "(k::int) \<in> {0..5} \<longleftrightarrow> k = 0 \<or> k = 1 \<or> k = 2 \<or> k = 3 \<or> k = 4 \<or> k = 5"
  by auto

lemma slot_update_lookup:
  "slot_update fi fvs k sel name = (if name = slot_name k \<and> participates fi fvs k then Some (fvs ! nat (k - fi)) else sel name)"
  by (simp add: slot_update_def)

lemma build_selector_lookup:
  assumes "go_int fi" "int (length fvs) + 5 < 9223372036854775808"
  shows "\<exists>sel. build_selector fi fvs = Inr sel \<and>
     (\<forall>k\<in>{0..5}. sel (slot_name k) = (if participates fi fvs k then Some (fvs ! nat (k - fi)) else None))
     \<and> dom sel = slot_name ` {k \<in> {0..5}. participates fi fvs k}"
proof -
  let ?sel = "slot_update fi fvs 5 (slot_update fi fvs 4 (slot_update fi fvs 3
     (slot_update fi fvs 2 (slot_update fi fvs 1 (slot_update fi fvs 0 Map.empty)))))"
  have l: "\<And>name. ?sel name = (if name = ''v5'' \<and> participates fi fvs 5 then Some (fvs ! nat (5 - fi))
      else if name = ''v4'' \<and> participates fi fvs 4 then Some (fvs ! nat (4 - fi))
      else if name = ''v3'' \<and> participates fi fvs 3 then Some (fvs ! nat (3 - fi))
      else if name = ''v2'' \<and> participates fi fvs 2 then Some (fvs ! nat (2 - fi))
      else if name = ''v1'' \<and> participates fi fvs 1 then Some (fvs ! nat (1 - fi))
      else if name = ''v0'' \<and> participates fi fvs 0 then Some (fvs ! nat (0 - fi))
      else None)"
    by (simp only: slot_update_lookup slot_names)
  have a: "\<forall>k\<in>{0..5}. ?sel (slot_name k) = (if participates fi fvs k then Some (fvs ! nat (k - fi)) else None)"
  proof
    fix k :: int
    assume "k \<in> {0..5}"
    then consider "k = 0" | "k = 1" | "k = 2" | "k = 3" | "k = 4" | "k = 5"
      unfolding slots_cases by blast
    then show "?sel (slot_name k) = (if participates fi fvs k then Some (fvs ! nat (k - fi)) else None)"
      by cases (simp_all add: l slot_names)
  qed
  have d: "dom ?sel = slot_name ` {k \<in> {0..5}. participates fi fvs k}"
  proof (rule set_eqI, rule iffI)
    fix name
    assume "name \<in> dom ?sel"
    then have "(name = slot_name 5 \<and> participates fi fvs 5) \<or> (name = slot_name 4 \<and> participates fi fvs 4)
       \<or> (name = slot_name 3 \<and> participates fi fvs 3) \<or> (name = slot_name 2 \<and> participates fi fvs 2)
       \<or> (name = slot_name 1 \<and> participates fi fvs 1) \<or> (name = slot_name 0 \<and> participates fi fvs 0)"
      unfolding dom_def mem_Collect_eq l slot_names by (simp split: if_splits)
    then show "name \<in> slot_name ` {k \<in> {0..5}. participates fi fvs k}"
      by (elim disjE conjE) (rule image_eqI, assumption, simp)+
  next
    fix name
    assume "name \<in> slot_name ` {k \<in> {0..5}. participates fi fvs k}"
    then obtain k where k: "k \<in> {0..5}" "participates fi fvs k" "name = slot_name k" by auto
    then have "?sel name = Some (fvs ! nat (k - fi))" using a by simp
    then show "name \<in> dom ?sel" by blast
  qed
  show ?thesis using build_selector_spec[OF assms] a d by blast
qed

lemma range_selector_spec:
  "set visit \<subseteq> dom selector \<Longrightarrow>
   range_selector visit selector (query, parameters) =
     (query @ concat (map (\<lambda>key. '' AND root.'' @ key @ '' = @'' @ key) visit),
      parameters @ map (\<lambda>key. \<lparr>Name = ''@'' @ key, Value = the (selector key)\<rparr>) visit)"
  by (induction visit arbitrary: query parameters) auto

subsection \<open>The window of the filter\<close>

text \<open>
  C4: for a field index that is a Go \<^verbatim>\<open>int\<close> and a list of values (short enough for
  \<^verbatim>\<open>5 + len(fieldValues)\<close> not to overflow), building the selector does not panic, and
  slot \<open>k\<close> of \<open>0..5\<close> is bound in it, to \<^verbatim>\<open>fieldValues[k - fieldIndex]\<close>, if and only if
  \<open>fieldIndex \<le> k < fieldIndex + len(fieldValues)\<close> and that value is non-empty; no
  other key is bound. Whatever the order in which the map is visited, the query is the
  equality on \<^verbatim>\<open>pType\<close> followed by one equality predicate for each bound slot, and
  the parameters are \<^verbatim>\<open>@pType\<close> followed by one binding for each bound slot.
\<close>

theorem C4_filter_window:
  assumes "go_int fieldIndex"
    and "int (length fieldValues) + 5 < 9223372036854775808"
  shows "\<exists>selector. build_selector fieldIndex fieldValues = Inr selector
     \<and> (\<forall>k\<in>{0..5}. selector (slot_name k) =
           (if participates fieldIndex fieldValues k
            then Some (fieldValues ! nat (k - fieldIndex)) else None))
     \<and> dom selector = slot_name ` {k \<in> {0..5}. participates fieldIndex fieldValues k}
     \<and> (\<forall>visit. distinct visit \<and> set visit = dom selector \<longrightarrow>
           build_query ptype selector visit =
             (''SELECT * FROM root WHERE root.pType = @pType''
                @ concat (map (\<lambda>key. '' AND root.'' @ key @ '' = @'' @ key) visit),
              \<lparr>Name = ''@pType'', Value = ptype\<rparr>
                # map (\<lambda>key. \<lparr>Name = ''@'' @ key, Value = the (selector key)\<rparr>) visit))"
proof -
  obtain selector where s: "build_selector fieldIndex fieldValues = Inr selector"
    and l: "\<forall>k\<in>{0..5}. selector (slot_name k) =
           (if participates fieldIndex fieldValues k
            then Some (fieldValues ! nat (k - fieldIndex)) else None)"
    and d: "dom selector = slot_name ` {k \<in> {0..5}. participates fieldIndex fieldValues k}"
    using build_selector_lookup[OF assms] by blast
  have "build_query ptype selector visit =
             (''SELECT * FROM root WHERE root.pType = @pType''
                @ concat (map (\<lambda>key. '' AND root.'' @ key @ '' = @'' @ key) visit),
              \<lparr>Name = ''@pType'', Value = ptype\<rparr>
                # map (\<lambda>key. \<lparr>Name = ''@'' @ key, Value = the (selector key)\<rparr>) visit)"
    if "distinct visit \<and> set visit = dom selector" for visit
  proof -
    have "set visit \<subseteq> dom selector"
      using that by simp
    then show ?thesis
      unfolding build_query_def by (simp add: range_selector_spec)
  qed
  with s l d show ?thesis
    by blast
qed

theorem C4_filter_window_witness:
  "\<exists>selector. build_selector (- 1) [''x'', ''y'', ''z''] = Inr selector
     \<and> selector ''v0'' = Some ''y'' \<and> selector ''v1'' = Some ''z'' \<and> selector ''v2'' = None
     \<and> dom selector = {''v0'', ''v1''}
     \<and> build_query ''p'' selector [''v1'', ''v0''] =
          (''SELECT * FROM root WHERE root.pType = @pType AND root.v1 = @v1 AND root.v0 = @v0'',
           [\<lparr>Name = ''@pType'', Value = ''p''\<rparr>, \<lparr>Name = ''@v1'', Value = ''z''\<rparr>,
            \<lparr>Name = ''@v0'', Value = ''y''\<rparr>])"
proof -
  have g: "go_int (- 1)"
    by (simp add: go_int_def)
  have n: "int (length [''x'', ''y'', ''z'']) + 5 < 9223372036854775808"
    by simp
  obtain selector where s: "build_selector (- 1) [''x'', ''y'', ''z''] = Inr selector"
    and l: "\<forall>k\<in>{0..5}. selector (slot_name k) =
           (if participates (- 1) [''x'', ''y'', ''z''] k
            then Some ([''x'', ''y'', ''z''] ! nat (k - (- 1))) else None)"
    and d: "dom selector = slot_name ` {k \<in> {0..5}. participates (- 1) [''x'', ''y'', ''z''] k}"
    and q: "\<forall>visit. distinct visit \<and> set visit = dom selector \<longrightarrow>
           build_query ''p'' selector visit =
             (''SELECT * FROM root WHERE root.pType = @pType''
                @ concat (map (\<lambda>key. '' AND root.'' @ key @ '' = @'' @ key) visit),
              \<lparr>Name = ''@pType'', Value = ''p''\<rparr>
                # map (\<lambda>key. \<lparr>Name = ''@'' @ key, Value = the (selector key)\<rparr>) visit)"
    using C4_filter_window[OF g n, of "''p''"] by blast
  have v0: "selector ''v0'' = Some ''y''"
    using l[rule_format, of 0] by (simp add: slot_names participates_def)
  have v1: "selector ''v1'' = Some ''z''"
    using l[rule_format, of 1] by (simp add: slot_names participates_def)
  have v2: "selector ''v2'' = None"
    using l[rule_format, of 2] by (simp add: slot_names participates_def)
  have "{k \<in> {0..5}. participates (- 1) [''x'', ''y'', ''z''] k} = {0, 1}"
  proof (rule set_eqI)
    fix k :: int
    have "k \<in> {0, 1} \<longleftrightarrow> k = 0 \<or> k = 1"
      by simp
    moreover have "participates (- 1) [''x'', ''y'', ''z''] 0" "participates (- 1) [''x'', ''y'', ''z''] 1"
      by (simp_all add: participates_def)
    moreover have "k = 0 \<or> k = 1" if "participates (- 1) [''x'', ''y'', ''z''] k" "0 \<le> k"
      using that by (auto simp add: participates_def)
    ultimately show "k \<in> {k \<in> {0..5}. participates (- 1) [''x'', ''y'', ''z''] k} \<longleftrightarrow> k \<in> {0, 1}"
      by auto
  qed
  then have dm: "dom selector = {''v0'', ''v1''}"
    using d by (simp add: slot_names)
  have "distinct [''v1'', ''v0''] \<and> set [''v1'', ''v0''] = dom selector"
    using dm by auto
  then have "build_query ''p'' selector [''v1'', ''v0''] =
          (''SELECT * FROM root WHERE root.pType = @pType AND root.v1 = @v1 AND root.v0 = @v0'',
           [\<lparr>Name = ''@pType'', Value = ''p''\<rparr>, \<lparr>Name = ''@v1'', Value = ''z''\<rparr>,
            \<lparr>Name = ''@v0'', Value = ''y''\<rparr>])"
    using q[rule_format, of "[''v1'', ''v0'']"] v0 v1 by simp
  with s v0 v1 v2 dm show ?thesis
    by blast
qed

text \<open>
  C10: for every field index that is a Go \<^verbatim>\<open>int\<close> (negative or beyond 5 included) and
  every list of values, a read \<^verbatim>\<open>fieldValues[k - fieldIndex]\<close> is in range whenever its
  guard holds, with the wrap-around of both computations taken into account, and so
  building the selector never panics, and neither does \<^verbatim>\<open>RemoveFilteredPolicy\<close>.
\<close>

theorem C10_reads_in_bounds:
  assumes "go_int fieldIndex"
    and "int (length fieldValues) < 9223372036854775808"
  shows "(\<exists>selector. build_selector fieldIndex fieldValues = Inr selector)
     \<and> (\<forall>p. fst (RemoveFilteredPolicy sql visit a sec ptype fieldIndex fieldValues) \<noteq> Panics p)
     \<and> (\<forall>k\<in>{0..5}.
           fieldIndex \<le> k \<and> k < int64 (fieldIndex + int (length fieldValues)) \<longrightarrow>
             0 \<le> int64 (k - fieldIndex) \<and> int64 (k - fieldIndex) < int (length fieldValues)
             \<and> go_index fieldValues (int64 (k - fieldIndex))
                 = Inr (fieldValues ! nat (k - fieldIndex)))"
proof (intro conjI)
  show r: "\<exists>selector. build_selector fieldIndex fieldValues = Inr selector"
    unfolding build_selector_def
    by (rule select_slots_returns[OF assms]) simp
  show "\<forall>p. fst (RemoveFilteredPolicy sql visit a sec ptype fieldIndex fieldValues) \<noteq> Panics p"
    using r
    by (auto simp add: RemoveFilteredPolicy_def Let_def split: prod.splits sum.splits)
next
  show "\<forall>k\<in>{0..5}.
           fieldIndex \<le> k \<and> k < int64 (fieldIndex + int (length fieldValues)) \<longrightarrow>
             0 \<le> int64 (k - fieldIndex) \<and> int64 (k - fieldIndex) < int (length fieldValues)
             \<and> go_index fieldValues (int64 (k - fieldIndex))
                 = Inr (fieldValues ! nat (k - fieldIndex))"
  proof (intro ballI impI)
    fix k :: int
    assume k: "k \<in> {0..5}"
      and g: "fieldIndex \<le> k \<and> k < int64 (fieldIndex + int (length fieldValues))"
    have "int64 (k - fieldIndex) = k - fieldIndex \<and> 0 \<le> k - fieldIndex
        \<and> k - fieldIndex < int (length fieldValues)"
      using assms k g by (intro guard_in_bounds) simp_all
    then show "0 \<le> int64 (k - fieldIndex) \<and> int64 (k - fieldIndex) < int (length fieldValues)
             \<and> go_index fieldValues (int64 (k - fieldIndex))
                 = Inr (fieldValues ! nat (k - fieldIndex))"
      by (simp add: go_index_def)
  qed
qed

theorem C10_reads_in_bounds_witness:
  "(\<exists>selector. build_selector (- 9223372036854775808) [''x'', ''y''] = Inr selector)
   \<and> (\<exists>selector. build_selector 9223372036854775807 [''x'', ''y''] = Inr selector)
   \<and> go_index [''x'', ''y'', ''z''] (int64 (0 - (- 2))) = Inr ''z''"
proof -
  have n: "int (length [''x'', ''y'']) < 9223372036854775808"
    "int (length [''x'', ''y'', ''z'']) < 9223372036854775808"
    by simp_all
  have a: "\<exists>selector. build_selector (- 9223372036854775808) [''x'', ''y''] = Inr selector"
    using C10_reads_in_bounds[of "- 9223372036854775808" "[''x'', ''y'']"] n
    by (simp add: go_int_def)
  have b: "\<exists>selector. build_selector 9223372036854775807 [''x'', ''y''] = Inr selector"
    using C10_reads_in_bounds[of 9223372036854775807 "[''x'', ''y'']"] n
    by (simp add: go_int_def)
  have c: "go_index [''x'', ''y'', ''z''] (int64 (0 - (- 2))) = Inr ''z''"
    by (simp add: go_index_def int64_def)
  from a b c show ?thesis
    by blast
qed


section \<open>Properties of the adapter\<close>

subsection \<open>Auxiliary facts\<close>

lemma LoadFilteredPolicy_sets_flag:
  "filtered (fst (snd (LoadFilteredPolicy sql a model (IsSqlQuerySpec querySpec))))"
  by (simp add: LoadFilteredPolicy_def Let_def split: prod.splits sum.splits option.splits)

lemma LoadPolicy_clears_flag:
  "\<not> filtered (fst (snd (LoadPolicy sql a model)))"
  by (simp add: LoadPolicy_def Let_def split: prod.splits sum.splits option.splits)

lemma LoadFilteredPolicy_Returns_filtered:
  assumes "LoadFilteredPolicy sql a model filter_arg = (Returns r, a', model')"
  shows "filtered a'"
proof (cases filter_arg)
  case (IsSqlQuerySpec querySpec)
  then show ?thesis
    using assms LoadFilteredPolicy_sets_flag[of sql a model querySpec] by simp
next
  case OtherValue
  then show ?thesis
    using assms by (simp add: LoadFilteredPolicy_def)
qed

text \<open>
  What a full load can reach: the lines a pager yields come from its own partition,
  and decoding a line touches the rule list of the line's policy type only. So
  \<^verbatim>\<open>LoadPolicy\<close>, whatever the container holds and however the call ends, leaves every
  rule list but that of \<^verbatim>\<open>p\<close> as it was.
\<close>

lemma loadPolicyLine_frame:
  assumes "loadPolicyLine line model = Inr model'"
    and "(sec, key) \<noteq> (take 1 (PType line), PType line)"
  shows "policy_of model' sec key = policy_of model sec key"
  using assms
  by (auto simp add: loadPolicyLine_def policy_of_def Let_def split: option.splits if_splits)

lemma load_lines_frame:
  assumes "\<forall>line\<in>set lines. PType line = pk"
    and "(sec, key) \<noteq> (take 1 pk, pk)"
  shows "policy_of (snd (load_lines lines model)) sec key = policy_of model sec key"
  using assms(1)
proof (induction lines arbitrary: model)
  case Nil
  then show ?case by simp
next
  case (Cons line lines)
  show ?case
  proof (cases "loadPolicyLine line model")
    case (Inl p)
    then show ?thesis by simp
  next
    case (Inr model')
    have "policy_of model' sec key = policy_of model sec key"
      using Inr assms(2) Cons.prems by (intro loadPolicyLine_frame) auto
    moreover have "policy_of (snd (load_lines lines model')) sec key = policy_of model' sec key"
      using Cons by simp
    ultimately show ?thesis
      using Inr by simp
  qed
qed

lemma unmarshal_items_from_page:
  "unmarshal_items page lines = Inr lines' \<Longrightarrow>
   set lines' \<subseteq> set lines \<union> {r. Document r \<in> set page}"
proof (induction page arbitrary: lines)
  case Nil
  then show ?case by simp
next
  case (Cons item page)
  show ?case
  proof (cases item)
    case (Document r)
    then have "unmarshal_items page (lines @ [r]) = Inr lines'"
      using Cons.prems by simp
    then have "set lines' \<subseteq> set (lines @ [r]) \<union> {r. Document r \<in> set page}"
      by (rule Cons.IH)
    then show ?thesis
      using Document by auto
  next
    case (Undecodable pk)
    then show ?thesis
      using Cons.prems by simp
  qed
qed

lemma fetch_pages_from_pages:
  "fetch_pages query pk pages lines c = (Inr lines', c') \<Longrightarrow>
   set lines' \<subseteq> set lines \<union> {r. Document r \<in> \<Union> (set ` set pages)}"
proof (induction pages arbitrary: lines c)
  case Nil
  then show ?case by simp
next
  case (Cons page pages)
  obtain rp c1 where r: "sdk (NextPage query pk) c = (rp, c1)"
    by (cases "sdk (NextPage query pk) c")
  show ?case
  proof (cases rp)
    case (Fail e)
    then show ?thesis using Cons.prems r by simp
  next
    case (Status st)
    show ?thesis
    proof (cases "unmarshal_items page lines")
      case (Inl err)
      then show ?thesis using Cons.prems r Status by simp
    next
      case (Inr lines1)
      then have f: "fetch_pages query pk pages lines1 c1 = (Inr lines', c')"
        using Cons.prems r Status by simp
      have "set lines' \<subseteq> set lines1 \<union> {r. Document r \<in> \<Union> (set ` set pages)}"
        using Cons.IH[OF f] .
      moreover have "set lines1 \<subseteq> set lines \<union> {r. Document r \<in> set page}"
        using Inr by (rule unmarshal_items_from_page)
      ultimately show ?thesis by auto
    qed
  qed
qed

lemma set_chunk: "\<Union> (set ` set (chunk n xs)) = set xs"
proof (induction n xs rule: chunk.induct)
  case (1 n xs)
  show ?case
  proof (cases "n = 0 \<or> length xs \<le> n")
    case True
    then show ?thesis by (simp add: chunk.simps)
  next
    case False
    then have "\<Union> (set ` set (chunk n (drop n xs))) = set (drop n xs)"
      using 1 by simp
    moreover have "chunk n xs = take n xs # chunk n (drop n xs)"
      using False by (subst chunk.simps) simp
    moreover have "set (take n xs) \<union> set (drop n xs) = set xs"
      by (metis append_take_drop_id set_append)
    ultimately show ?thesis by simp
  qed
qed

lemma pager_partition:
  "d \<in> \<Union> (set ` set (NewQueryItemsPager sql c query pk parameters)) \<Longrightarrow> partition_of d = pk"
  unfolding NewQueryItemsPager_def set_chunk by (simp add: select_items_def)

lemma LoadPolicy_frame:
  assumes "(sec, key) \<noteq> (''p'', ''p'')"
  shows "policy_of (snd (snd (LoadPolicy sql a model))) sec key = policy_of model sec key"
proof -
  let ?c = "containerClient (a\<lparr>filtered := False\<rparr>)"
  let ?pager = "NewQueryItemsPager sql ?c ''SELECT * FROM c'' ''p'' []"
  obtain res c' where f: "fetch_pages ''SELECT * FROM c'' ''p'' ?pager [] ?c = (res, c')"
    by (cases "fetch_pages ''SELECT * FROM c'' ''p'' ?pager [] ?c")
  show ?thesis
  proof (cases res)
    case (Inl err)
    then show ?thesis using f by (simp add: LoadPolicy_def Let_def)
  next
    case (Inr lines)
    have "set lines \<subseteq> set [] \<union> {r. Document r \<in> \<Union> (set ` set ?pager)}"
      using f Inr by (intro fetch_pages_from_pages) simp
    then have p: "\<forall>line\<in>set lines. PType line = ''p''"
      using pager_partition[of _ sql ?c "''SELECT * FROM c''" "''p''" "[]"] by fastforce
    have "(sec, key) \<noteq> (take 1 ''p'', ''p'')"
      using assms by simp
    then have "policy_of (snd (load_lines lines model)) sec key = policy_of model sec key"
      using p by (intro load_lines_frame)
    then show ?thesis
      using f Inr by (auto simp add: LoadPolicy_def Let_def split: prod.splits option.splits)
  qed
qed

subsection \<open>Saving a filtered policy\<close>

text \<open>
  C7: when the flag \<^verbatim>\<open>filtered\<close> is true, and so after every \<^verbatim>\<open>LoadFilteredPolicy\<close>
  that returned, \<^verbatim>\<open>SavePolicy\<close> returns the error \<^verbatim>\<open>cannot save a filtered policy\<close> and
  leaves the adapter as it was: the container receives no call, and its items are
  neither dropped nor changed.
\<close>

theorem C7_save_rejects_filtered:
  "(filtered a \<longrightarrow>
      SavePolicy checksum visit_p visit_g a model
        = (Some (ErrorsNew ''cannot save a filtered policy''), a)
      \<and> calls (containerClient (snd (SavePolicy checksum visit_p visit_g a model)))
          = calls (containerClient a)
      \<and> items (containerClient (snd (SavePolicy checksum visit_p visit_g a model)))
          = items (containerClient a))
   \<and> (LoadFilteredPolicy sql a0 model0 filter_arg = (Returns None, a, model1) \<longrightarrow>
      SavePolicy checksum visit_p visit_g a model
        = (Some (ErrorsNew ''cannot save a filtered policy''), a))"
proof (intro conjI impI)
  assume "filtered a"
  then show s: "SavePolicy checksum visit_p visit_g a model
        = (Some (ErrorsNew ''cannot save a filtered policy''), a)"
    by (simp add: SavePolicy_def)
  show "calls (containerClient (snd (SavePolicy checksum visit_p visit_g a model)))
          = calls (containerClient a)"
    by (simp add: s)
  show "items (containerClient (snd (SavePolicy checksum visit_p visit_g a model)))
          = items (containerClient a)"
    by (simp add: s)
next
  assume "LoadFilteredPolicy sql a0 model0 filter_arg = (Returns None, a, model1)"
  then have "filtered a"
    by (rule LoadFilteredPolicy_Returns_filtered)
  then show "SavePolicy checksum visit_p visit_g a model
        = (Some (ErrorsNew ''cannot save a filtered policy''), a)"
    by (simp add: SavePolicy_def)
qed

lemma LoadFilteredPolicy_example:
  "LoadFilteredPolicy every_item example_adapter fresh_model
     (IsSqlQuerySpec \<lparr>Query = ''SELECT * FROM root WHERE root.v0 = @v0'',
                      Parameters = [\<lparr>Name = ''@v0'', Value = ''alice''\<rparr>]\<rparr>)
   = (Returns None,
      example_adapter
        \<lparr>containerClient :=
           example_container\<lparr>calls := [NextPage ''SELECT * FROM root WHERE root.v0 = @v0'' ''p'']\<rparr>,
         filtered := True\<rparr>,
      fresh_model(''p'' \<mapsto> [''p'' \<mapsto> \<lparr>Policy = [[''alice'', ''data1'', ''read'']]\<rparr>]))"
  by (simp add: LoadFilteredPolicy_def example_adapter_def example_container_def
      NewQueryItemsPager_def select_items_def chunk.simps sdk_def rule_alice_def rule_role_def
      loadPolicyLine_def line_tokens_def fresh_model_def every_item_def Let_def)

theorem C7_save_rejects_filtered_witness:
  "SavePolicy (\<lambda>seed data. [171]) [''p''] [''g'']
     (example_adapter
        \<lparr>containerClient :=
           example_container\<lparr>calls := [NextPage ''SELECT * FROM root WHERE root.v0 = @v0'' ''p'']\<rparr>,
         filtered := True\<rparr>)
     fresh_model
   = (Some (ErrorsNew ''cannot save a filtered policy''),
      example_adapter
        \<lparr>containerClient :=
           example_container\<lparr>calls := [NextPage ''SELECT * FROM root WHERE root.v0 = @v0'' ''p'']\<rparr>,
         filtered := True\<rparr>)
   \<and> calls (containerClient (snd (SavePolicy (\<lambda>seed data. [171]) [''p''] [''g'']
                                    example_adapter fresh_model)))
       = [ContainerDelete, CreateContainer ''casbin_rule'']
   \<and> items (containerClient (snd (SavePolicy (\<lambda>seed data. [171]) [''p''] [''g'']
                                    example_adapter fresh_model)))
       = []"
proof -
  have "SavePolicy (\<lambda>seed data. [171]) [''p''] [''g'']
     (example_adapter
        \<lparr>containerClient :=
           example_container\<lparr>calls := [NextPage ''SELECT * FROM root WHERE root.v0 = @v0'' ''p'']\<rparr>,
         filtered := True\<rparr>)
     fresh_model
   = (Some (ErrorsNew ''cannot save a filtered policy''),
      example_adapter
        \<lparr>containerClient :=
           example_container\<lparr>calls := [NextPage ''SELECT * FROM root WHERE root.v0 = @v0'' ''p'']\<rparr>,
         filtered := True\<rparr>)"
    using C7_save_rejects_filtered
            [of _ "\<lambda>seed data. [171]" "[''p'']" "[''g'']" fresh_model every_item example_adapter
                fresh_model
                "IsSqlQuerySpec \<lparr>Query = ''SELECT * FROM root WHERE root.v0 = @v0'',
                                 Parameters = [\<lparr>Name = ''@v0'', Value = ''alice''\<rparr>]\<rparr>"]
      LoadFilteredPolicy_example
    by blast
  moreover have "calls (containerClient (snd (SavePolicy (\<lambda>seed data. [171]) [''p''] [''g'']
                                    example_adapter fresh_model)))
       = [ContainerDelete, CreateContainer ''casbin_rule'']
     \<and> items (containerClient (snd (SavePolicy (\<lambda>seed data. [171]) [''p''] [''g'']
                                    example_adapter fresh_model)))
       = []"
    by (simp add: SavePolicy_def dropCollection_def sdk_def example_adapter_def
        example_container_def collect_section_def fresh_model_def Let_def)
  ultimately show ?thesis
    by blast
qed

subsection \<open>The flag\<close>

text \<open>
  C9, as the code has it. The specification says that \<^verbatim>\<open>LoadFilteredPolicy\<close> sets the flag
  exactly on success. The assignment \<^verbatim>\<open>a.filtered = true\<close> comes before the query: when
  the first page fails, the call returns the error and the flag, false before, is true.
\<close>

theorem C9_flag_set_on_failure_counterexample:
  "\<not> IsFiltered (example_adapter\<lparr>containerClient := example_container\<lparr>replies := [Fail ''timeout'']\<rparr>\<rparr>)
   \<and> LoadFilteredPolicy every_item
        (example_adapter\<lparr>containerClient := example_container\<lparr>replies := [Fail ''timeout'']\<rparr>\<rparr>)
        fresh_model
        (IsSqlQuerySpec \<lparr>Query = ''SELECT * FROM root WHERE root.v0 = @v0'',
                         Parameters = [\<lparr>Name = ''@v0'', Value = ''alice''\<rparr>]\<rparr>)
      = (Returns (Some (External ''timeout'')),
         example_adapter
           \<lparr>containerClient :=
              example_container
                \<lparr>calls := [NextPage ''SELECT * FROM root WHERE root.v0 = @v0'' ''p''], replies := []\<rparr>,
            filtered := True\<rparr>,
         fresh_model)
   \<and> IsFiltered
        (example_adapter
           \<lparr>containerClient :=
              example_container
                \<lparr>calls := [NextPage ''SELECT * FROM root WHERE root.v0 = @v0'' ''p''], replies := []\<rparr>,
            filtered := True\<rparr>)"
  by (simp add: LoadFilteredPolicy_def example_adapter_def example_container_def
      NewQueryItemsPager_def select_items_def chunk.simps sdk_def rule_alice_def rule_role_def
      every_item_def IsFiltered_def Let_def)

text \<open>
  C9, amended: \<^verbatim>\<open>LoadFilteredPolicy\<close> called with a \<^verbatim>\<open>SqlQuerySpec\<close> sets the flag to true
  on entry, so the flag is true afterwards whether the load succeeds, fails or panics
  while decoding (a filter of another dynamic type panics and leaves the adapter
  untouched); \<^verbatim>\<open>LoadPolicy\<close> sets it to false on entry, so it is false afterwards
  whether the load succeeds or not; \<^verbatim>\<open>IsFiltered\<close> reports the current value.
\<close>

theorem C9_flag_follows_last_load:
  "IsFiltered (fst (snd (LoadFilteredPolicy sql a model (IsSqlQuerySpec querySpec))))
   \<and> \<not> IsFiltered (fst (snd (LoadPolicy sql a model)))
   \<and> IsFiltered a = filtered a
   \<and> LoadFilteredPolicy sql a model OtherValue = (Panics InterfaceConversion, a, model)"
  by (simp add: IsFiltered_def LoadFilteredPolicy_sets_flag LoadPolicy_clears_flag)
     (simp add: LoadFilteredPolicy_def)

theorem C9_flag_follows_last_load_witness:
  "IsFiltered (fst (snd (LoadFilteredPolicy every_item example_adapter fresh_model
       (IsSqlQuerySpec \<lparr>Query = ''SELECT * FROM root WHERE root.v0 = @v0'',
                        Parameters = [\<lparr>Name = ''@v0'', Value = ''alice''\<rparr>]\<rparr>))))
   \<and> \<not> IsFiltered (fst (snd (LoadPolicy every_item (example_adapter\<lparr>filtered := True\<rparr>) fresh_model)))"
  using C9_flag_follows_last_load
          [of every_item example_adapter fresh_model
              "\<lparr>Query = ''SELECT * FROM root WHERE root.v0 = @v0'',
                Parameters = [\<lparr>Name = ''@v0'', Value = ''alice''\<rparr>]\<rparr>"]
        C9_flag_follows_last_load
          [of every_item "example_adapter\<lparr>filtered := True\<rparr>" fresh_model
              "\<lparr>Query = ''SELECT * FROM root WHERE root.v0 = @v0'',
                Parameters = [\<lparr>Name = ''@v0'', Value = ''alice''\<rparr>]\<rparr>"]
  by blast

subsection \<open>Loading everything\<close>

text \<open>
  C2, as the code has it. The specification says that \<^verbatim>\<open>LoadPolicy\<close> fetches and decodes every
  stored record, of any policy type. The pager of \<^verbatim>\<open>LoadPolicy\<close> is built with the
  partition key \<^verbatim>\<open>"p"\<close>: from a container that holds the permission rule
  \<open>p, alice, data1, read\<close> and the role rule \<open>g, alice, data2_admin\<close>, the call returns
  nil, the rule list of \<^verbatim>\<open>p\<close> receives the permission rule, and the rule list of \<^verbatim>\<open>g\<close>
  stays empty (\<open>LoadPolicy_frame\<close> is the general fact). \<^verbatim>\<open>SavePolicy\<close> does write the
  rules of \<^verbatim>\<open>model["g"]\<close>, each under the partition of its own policy type.
\<close>

theorem C2_role_records_not_loaded:
  "LoadPolicy every_item example_adapter fresh_model
   = (Returns None,
      example_adapter
        \<lparr>containerClient := example_container\<lparr>calls := [NextPage ''SELECT * FROM c'' ''p'']\<rparr>\<rparr>,
      fresh_model(''p'' \<mapsto> [''p'' \<mapsto> \<lparr>Policy = [[''alice'', ''data1'', ''read'']]\<rparr>]))
   \<and> items example_container = [Document rule_alice, Document rule_role]
   \<and> PType rule_role = ''g''
   \<and> policy_of (fresh_model(''p'' \<mapsto> [''p'' \<mapsto> \<lparr>Policy = [[''alice'', ''data1'', ''read'']]\<rparr>]))
        ''g'' ''g'' = Some []"
  by (simp add: LoadPolicy_def example_adapter_def example_container_def NewQueryItemsPager_def
      select_items_def chunk.simps sdk_def rule_alice_def rule_role_def loadPolicyLine_def
      line_tokens_def fresh_model_def policy_of_def Let_def)

end
